theory Spec2Isabelle
  imports Main "HOL-Library.Word"
begin

section \<open>Strings of the host language\<close>

text \<open>
  A JavaScript string is a sequence of UTF-16 code units. The journal is written in
  Chinese, and \<open>String.prototype.trim\<close> strips code points far outside ASCII
  (U+3000, the ideographic space, among them), so strings are lists of 16-bit words and
  not lists of bytes.
\<close>

type_synonym jsstring = "16 word list"

text \<open>An ASCII literal of the source, as code units.\<close>

definition ascii :: "string \<Rightarrow> jsstring" where
  "ascii s = map (\<lambda>c. of_nat (of_char c)) s"

text \<open>
  The code units \<open>trim\<close> strips: WhiteSpace and LineTerminator of ECMA-262
  (TAB, LF, VT, FF, CR, SP, NBSP, U+1680, U+2000..U+200A, U+2028, U+2029, U+202F, U+205F,
  U+3000, U+FEFF).
\<close>

definition js_whitespace :: "16 word \<Rightarrow> bool" where
  "js_whitespace c =
     (c = 0x0009 \<or> c = 0x000A \<or> c = 0x000B \<or> c = 0x000C \<or> c = 0x000D \<or> c = 0x0020 \<or>
      c = 0x00A0 \<or> c = 0x1680 \<or> (0x2000 \<le> c \<and> c \<le> 0x200A) \<or> c = 0x2028 \<or>
      c = 0x2029 \<or> c = 0x202F \<or> c = 0x205F \<or> c = 0x3000 \<or> c = 0xFEFF)"

text \<open>\<open>s.trim()\<close>: the string without its leading and trailing white space.\<close>

definition trim :: "jsstring \<Rightarrow> jsstring" where
  "trim s = rev (dropWhile js_whitespace (rev (dropWhile js_whitespace s)))"

text \<open>
  Truthiness of a string (\<open>!!s\<close>, \<open>!s\<close>, \<open>s && ...\<close>): every string but the
  empty one is truthy. An optional field (\<open>f?: string\<close>) is \<open>undefined\<close> when it is
  \<open>None\<close>, and \<open>undefined\<close> is falsy.
\<close>

definition truthy :: "jsstring \<Rightarrow> bool" where
  "truthy s = (s \<noteq> [])"

definition truthy_opt :: "jsstring option \<Rightarrow> bool" where
  "truthy_opt f = (case f of None \<Rightarrow> False | Some s \<Rightarrow> truthy s)"


section \<open>Types\<close>

datatype Mood = very_sad | sad | neutral | happy | very_happy

record JournalEntry =
  entry_id :: jsstring
  date :: jsstring
  content :: jsstring
  mood :: Mood
  negativeThought :: "jsstring option"
  cbtSuggestion :: "jsstring option"
  prompt :: "jsstring option"

text \<open>An icon element of the source: the component and its \<open>size\<close> property.\<close>

datatype icon = Book nat | Sparkles nat | Brain nat | Award nat

record Badge =
  badge_id :: jsstring
  name :: jsstring
  description :: jsstring
  icon :: icon
  unlocked :: bool
  condition :: "JournalEntry list \<Rightarrow> bool"


section \<open>The badges and their conditions\<close>

definition first_step_condition :: "JournalEntry list \<Rightarrow> bool" where
  "first_step_condition e = (length e \<ge> 1)"

definition streak_3_condition :: "JournalEntry list \<Rightarrow> bool" where
  "streak_3_condition e = (if length e < 3 then False else True)"

definition cbt_explorer_condition :: "JournalEntry list \<Rightarrow> bool" where
  "cbt_explorer_condition e = list_ex (\<lambda>entry. truthy_opt (cbtSuggestion entry)) e"

definition master_10_condition :: "JournalEntry list \<Rightarrow> bool" where
  "master_10_condition e = (length e \<ge> 10)"

text \<open>The initial value of the \<open>badges\<close> state of \<open>App\<close>.\<close>

definition initial_badges :: "Badge list" where
  "initial_badges =
     [\<lparr>badge_id = ascii ''first_step'',
       name = [0x8D77, 0x6B65, 0x8005],
       description = [0x5B8C, 0x6210, 0x4F60, 0x7684, 0x7B2C, 0x4E00, 0x7BC7, 0x611F, 0x6069,
                      0x65E5, 0x8BB0, 0x3002],
       icon = Book 20, unlocked = False, condition = first_step_condition\<rparr>,
      \<lparr>badge_id = ascii ''streak_3'',
       name = [0x4E09, 0x65E5, 0x8FDE, 0x80DC],
       description = [0x8FDE, 0x7EED, 0x8BB0, 0x5F55, 0x0033, 0x5929, 0x3002],
       icon = Sparkles 20, unlocked = False, condition = streak_3_condition\<rparr>,
      \<lparr>badge_id = ascii ''cbt_explorer'',
       name = [0x601D, 0x7EF4, 0x63A2, 0x7D22, 0x8005],
       description = [0x5B8C, 0x6210, 0x4E00, 0x6B21, 0x8D1F, 0x9762, 0x601D, 0x7EF4, 0x91CD,
                      0x6784, 0x7EC3, 0x4E60, 0x3002],
       icon = Brain 20, unlocked = False, condition = cbt_explorer_condition\<rparr>,
      \<lparr>badge_id = ascii ''master_10'',
       name = [0x611F, 0x6069, 0x5927, 0x5E08],
       description = [0x7D2F, 0x8BA1, 0x8BB0, 0x5F55, 0x0031, 0x0030, 0x4EF6, 0x611F, 0x6069,
                      0x4E4B, 0x4E8B, 0x3002],
       icon = Award 20, unlocked = False, condition = master_10_condition\<rparr>]"

text \<open>
  The updater the entries effect hands to \<open>setBadges\<close>:
  \<open>prev.map(badge => ({...badge, unlocked: badge.condition(entries)}))\<close>.
\<close>

definition recompute_badges :: "JournalEntry list \<Rightarrow> Badge list \<Rightarrow> Badge list" where
  "recompute_badges es prev =
     map (\<lambda>badge. badge\<lparr>unlocked := condition badge es\<rparr>) prev"

text \<open>The ids of the unlocked badges, in the order of the list (what the profile view filters).\<close>

definition unlocked_ids :: "Badge list \<Rightarrow> jsstring list" where
  "unlocked_ids bs = map badge_id (filter unlocked bs)"

section \<open>The application state and its handlers\<close>

datatype Tab = home | journal | exercises | profile

record UserSettings =
  reminderTime :: jsstring
  reminderEnabled :: bool

text \<open>
  The state of \<open>App\<close>. \<open>viewProps\<close> holds at most a prompt, so it is the optional
  prompt itself.
\<close>

record App_state =
  activeTab :: Tab
  entries :: "JournalEntry list"
  settings :: UserSettings
  badges :: "Badge list"
  viewProps :: "jsstring option"

definition initial_App_state :: App_state where
  "initial_App_state =
     \<lparr>activeTab = home, entries = [],
      settings = \<lparr>reminderTime = ascii ''20:00'', reminderEnabled = False\<rparr>,
      badges = initial_badges, viewProps = None\<rparr>"

text \<open>\<open>localStorage\<close>: string keys to string values; \<open>getItem\<close> of a missing key is \<open>null\<close>.\<close>

type_synonym storage = "jsstring \<rightharpoonup> jsstring"

text \<open>\<open>handleSaveEntry\<close>: \<open>setEntries([entry, ...entries]); setActiveTab("home")\<close>.\<close>

definition handleSaveEntry :: "JournalEntry \<Rightarrow> App_state \<Rightarrow> App_state" where
  "handleSaveEntry entry app = app\<lparr>entries := entry # entries app, activeTab := home\<rparr>"

text \<open>
  The effect that runs whenever \<open>entries\<close> has changed: it writes the serialized
  entries under \<open>mm_entries\<close> and recomputes the badges. \<open>JSON.stringify\<close> belongs
  to the platform and is a parameter here.
\<close>

definition entries_effect ::
  "(JournalEntry list \<Rightarrow> jsstring) \<Rightarrow> storage \<times> App_state \<Rightarrow> storage \<times> App_state" where
  "entries_effect stringify = (\<lambda>(ls, app).
     (ls(ascii ''mm_entries'' \<mapsto> stringify (entries app)),
      app\<lparr>badges := recompute_badges (entries app) (badges app)\<rparr>))"

section \<open>The journal view: composing an entry\<close>

text \<open>
  The state of \<open>JournalView\<close>. A primed name is the state variable whose plain name
  is taken by the field of \<open>JournalEntry\<close> it ends up in. \<open>aiSuggestion\<close> is
  declared a string, but the handler stores \<open>response.text\<close> in it unchecked, and
  that is \<open>undefined\<close> for a reply without text: at run time the state is a string
  or \<open>undefined\<close> (\<open>None\<close>).
\<close>

record JournalView_state =
  content' :: jsstring
  mood' :: Mood
  showCBT :: bool
  negativeThought' :: jsstring
  aiSuggestion :: "jsstring option"
  isAnalysing :: bool

definition initial_JournalView_state :: JournalView_state where
  "initial_JournalView_state =
     \<lparr>content' = [], mood' = neutral, showCBT = False, negativeThought' = [],
      aiSuggestion = Some [], isAnalysing = False\<rparr>"

text \<open>What a \<open>catch\<close> clause can receive.\<close>

datatype exn = SyntaxError | TypeError | Error jsstring

text \<open>
  What the awaited part of the \<open>try\<close> block of \<open>handleAnalyzeCBT\<close> yields: a
  response, given by its \<open>text\<close> property, or whatever the client or the service
  threw. The text-generation client is not part of the repository; the \<open>text\<close>
  of a response is a string, or \<open>undefined\<close> (\<open>None\<close>) when the reply carries
  no text, as for a prompt that the service blocks.
\<close>

datatype gen_outcome = Response "jsstring option" | Failure exn

definition mood_string :: "Mood \<Rightarrow> jsstring" where
  "mood_string m =
     (case m of very_sad \<Rightarrow> ascii ''very_sad'' | sad \<Rightarrow> ascii ''sad''
      | neutral \<Rightarrow> ascii ''neutral'' | happy \<Rightarrow> ascii ''happy''
      | very_happy \<Rightarrow> ascii ''very_happy'')"

text \<open>The prompt template of \<open>handleAnalyzeCBT\<close>, line breaks and indentation included.\<close>

definition build_prompt :: "jsstring \<Rightarrow> Mood \<Rightarrow> jsstring" where
  "build_prompt thought m =
     [0x0A] @ ascii ''        User'' @ [0x27] @ ascii ''s Negative Thought: '' @ [0x22] @
     thought @ [0x22, 0x0A] @ ascii ''        User'' @ [0x27] @ ascii ''s Current Mood: '' @
     mood_string m @ [0x0A] @ ascii ''        '' @ [0x0A] @
     ascii ''        Please analyze this thought using CBT principles.'' @ [0x0A] @
     ascii ''      ''"

text \<open>The text stored when the request fails.\<close>

definition FALLBACK_SUGGESTION :: jsstring where
  "FALLBACK_SUGGESTION =
     [0x62B1, 0x6B49, 0xFF0C, 0x0041, 0x0049, 0x0020, 0x6682, 0x65F6, 0x65E0, 0x6CD5, 0x8FDE,
      0x63A5, 0x3002, 0x8BF7, 0x8BD5, 0x7740, 0x95EE, 0x81EA, 0x5DF1, 0xFF1A, 0x8FD9, 0x4E2A,
      0x60F3, 0x6CD5, 0x662F, 0x0031, 0x0030, 0x0030, 0x0025, 0x771F, 0x5B9E, 0x7684, 0x5417,
      0xFF1F]"

text \<open>
  \<open>handleAnalyzeCBT\<close> up to its \<open>await\<close>: it returns at once on a falsy thought
  (\<open>None\<close>); otherwise it sets \<open>isAnalysing\<close> and issues the request whose prompt is
  the second component.
\<close>

definition handleAnalyzeCBT_begin :: "JournalView_state \<Rightarrow> (JournalView_state \<times> jsstring) option" where
  "handleAnalyzeCBT_begin st =
     (if \<not> truthy (negativeThought' st) then None
      else Some (st\<lparr>isAnalysing := True\<rparr>, build_prompt (negativeThought' st) (mood' st)))"

text \<open>
  The \<open>try\<close> block from the \<open>await\<close> on: an exception leaves it; the text of a
  response is stored as it is, \<open>undefined\<close> included.
\<close>

definition try_block :: "gen_outcome \<Rightarrow> JournalView_state \<Rightarrow> exn + JournalView_state" where
  "try_block out st =
     (case out of Failure e \<Rightarrow> Inl e | Response text \<Rightarrow> Inr (st\<lparr>aiSuggestion := text\<rparr>))"

text \<open>
  \<open>handleAnalyzeCBT\<close> from its \<open>await\<close> on, applied to the state of that moment:
  \<open>try\<close>, then \<open>catch\<close> (which stores the fallback text), then \<open>finally\<close>
  (which clears \<open>isAnalysing\<close> whatever happened).
\<close>

definition handleAnalyzeCBT_complete :: "gen_outcome \<Rightarrow> JournalView_state \<Rightarrow> exn + JournalView_state" where
  "handleAnalyzeCBT_complete out st =
     (let caught = (case try_block out st of
                      Inl e \<Rightarrow> Inr (st\<lparr>aiSuggestion := Some FALLBACK_SUGGESTION\<rparr>)
                    | Inr st' \<Rightarrow> Inr st')
      in case caught of
           Inl e \<Rightarrow> Inl e
         | Inr st' \<Rightarrow> Inr (st'\<lparr>isAnalysing := False\<rparr>))"

text \<open>The handler run to its end, nothing else happening in between.\<close>

definition handleAnalyzeCBT :: "gen_outcome \<Rightarrow> JournalView_state \<Rightarrow> exn + JournalView_state" where
  "handleAnalyzeCBT out st =
     (case handleAnalyzeCBT_begin st of
        None \<Rightarrow> Inr st
      | Some (st1, request) \<Rightarrow> handleAnalyzeCBT_complete out st1)"

text \<open>
  What the reframing section of the view shows: the suggestion panel when
  \<open>aiSuggestion\<close> is truthy; otherwise the button, labelled as thinking while
  \<open>isAnalysing\<close>, enabled when there is a thought, disabled when there is none.
\<close>

datatype pipeline = Idle | Ready | Requesting | Resolved

definition pipeline_state :: "JournalView_state \<Rightarrow> pipeline" where
  "pipeline_state st =
     (if truthy_opt (aiSuggestion st) then Resolved
      else if isAnalysing st then Requesting
      else if truthy (negativeThought' st) then Ready
      else Idle)"

text \<open>
  \<open>handleSubmit\<close>: \<open>None\<close> is the early return, \<open>Some\<close> the entry handed to
  \<open>onSave\<close>. The clock readings (\<open>Date.now().toString()\<close>,
  \<open>new Date().toISOString()\<close>) are parameters.
\<close>

definition handleSubmit ::
  "jsstring \<Rightarrow> jsstring \<Rightarrow> jsstring option \<Rightarrow> JournalView_state \<Rightarrow> JournalEntry option" where
  "handleSubmit now_ms now_iso initialPrompt st =
     (if \<not> truthy (trim (content' st)) then None
      else Some \<lparr>entry_id = now_ms, date = now_iso, content = content' st, mood = mood' st,
                 negativeThought = (if showCBT st then Some (negativeThought' st) else None),
                 cbtSuggestion = (if showCBT st then aiSuggestion st else None),
                 prompt = initialPrompt\<rparr>)"

text \<open>
  The save button of the journal view inside \<open>App\<close>: \<open>onSave\<close> is
  \<open>handleSaveEntry\<close> and \<open>initialPrompt\<close> is \<open>viewProps.prompt\<close>.
\<close>

definition save_click :: "jsstring \<Rightarrow> jsstring \<Rightarrow> JournalView_state \<Rightarrow> App_state \<Rightarrow> App_state" where
  "save_click now_ms now_iso st app =
     (case handleSubmit now_ms now_iso (viewProps app) st of
        None \<Rightarrow> app
      | Some newEntry \<Rightarrow> handleSaveEntry newEntry app)"


subsection \<open>The events of one composition\<close>

text \<open>
  One mounted journal view together with the requests it has issued that have not
  settled yet. An event is a user action on a control of the view, or the settling of
  the oldest outstanding request. A control that is not rendered, and a disabled
  button, deliver nothing.
\<close>

record composition =
  view :: JournalView_state
  inflight :: "jsstring list"

definition initial_composition :: composition where
  "initial_composition = \<lparr>view = initial_JournalView_state, inflight = []\<rparr>"

datatype event =
    SetContent jsstring
  | SetMood Mood
  | ToggleCBT
  | SetNegativeThought jsstring
  | ClickAnalyze
  | ClickRegenerate
  | Settle gen_outcome

text \<open>The analyze button is rendered in the open section while \<open>aiSuggestion\<close> is falsy.\<close>

definition analyze_rendered :: "JournalView_state \<Rightarrow> bool" where
  "analyze_rendered st = (showCBT st \<and> \<not> truthy_opt (aiSuggestion st))"

text \<open>\<open>disabled={isAnalysing || !negativeThought}\<close>.\<close>

definition analyze_disabled :: "JournalView_state \<Rightarrow> bool" where
  "analyze_disabled st = (isAnalysing st \<or> \<not> truthy (negativeThought' st))"

fun step :: "event \<Rightarrow> composition \<Rightarrow> exn + composition" where
  "step (SetContent s) c = Inr (c\<lparr>view := (view c)\<lparr>content' := s\<rparr>\<rparr>)"
| "step (SetMood m) c = Inr (c\<lparr>view := (view c)\<lparr>mood' := m\<rparr>\<rparr>)"
| "step ToggleCBT c = Inr (c\<lparr>view := (view c)\<lparr>showCBT := \<not> showCBT (view c)\<rparr>\<rparr>)"
| "step (SetNegativeThought s) c =
     (if showCBT (view c) then Inr (c\<lparr>view := (view c)\<lparr>negativeThought' := s\<rparr>\<rparr>) else Inr c)"
| "step ClickAnalyze c =
     (if analyze_rendered (view c) \<and> \<not> analyze_disabled (view c) then
        (case handleAnalyzeCBT_begin (view c) of
           None \<Rightarrow> Inr c
         | Some (st1, request) \<Rightarrow> Inr \<lparr>view = st1, inflight = inflight c @ [request]\<rparr>)
      else Inr c)"
| "step ClickRegenerate c =
     (if showCBT (view c) \<and> truthy_opt (aiSuggestion (view c))
      then Inr (c\<lparr>view := (view c)\<lparr>aiSuggestion := Some []\<rparr>\<rparr>) else Inr c)"
| "step (Settle out) c =
     (case inflight c of
        [] \<Rightarrow> Inr c
      | request # rest \<Rightarrow>
          (case handleAnalyzeCBT_complete out (view c) of
             Inl e \<Rightarrow> Inl e
           | Inr st' \<Rightarrow> Inr \<lparr>view = st', inflight = rest\<rparr>))"

text \<open>A sequence of events, stopping at the first exception that escapes a handler.\<close>

fun run :: "event list \<Rightarrow> composition \<Rightarrow> exn + composition" where
  "run [] c = Inr c"
| "run (ev # evs) c = (case step ev c of Inl e \<Rightarrow> Inl e | Inr c' \<Rightarrow> run evs c')"

text \<open>
  At most one request is outstanding, and \<open>isAnalysing\<close> says whether one is.
\<close>

definition one_request :: "composition \<Rightarrow> bool" where
  "one_request c = (length (inflight c) \<le> 1 \<and> isAnalysing (view c) = (inflight c \<noteq> []))"


section \<open>Reading persisted values back\<close>

subsection \<open>\<open>JSON.parse\<close>\<close>





























subsection \<open>The effect that runs once, when the application starts\<close>






section \<open>Values used as instances\<close>

definition example_entry :: "jsstring option \<Rightarrow> jsstring option \<Rightarrow> JournalEntry" where
  "example_entry thought suggestion =
     \<lparr>entry_id = ascii ''1762170000000'', date = ascii ''2026-11-03T11:40:00.000Z'',
      content = ascii ''a walk in the sun'', mood = happy,
      negativeThought = thought, cbtSuggestion = suggestion, prompt = None\<rparr>"

text \<open>The thought of the specification's scenario (six Chinese characters).\<close>

definition example_thought :: jsstring where
  "example_thought = [0x6211, 0x603B, 0x662F, 0x505A, 0x4E0D, 0x597D]"

definition example_view :: JournalView_state where
  "example_view =
     \<lparr>content' = ascii ''a walk in the sun'', mood' = sad, showCBT = True,
      negativeThought' = example_thought, aiSuggestion = Some [], isAnalysing = False\<rparr>"


text \<open>
  A composition in which the thought is erased after the suggestion has arrived, one in
  which the reply carries no text, and one in which the analyze button is clicked twice
  in a row.
\<close>

definition example_flow :: "event list" where
  "example_flow =
     [SetContent (ascii ''a walk in the sun''), ToggleCBT, SetNegativeThought example_thought,
      ClickAnalyze, Settle (Response (Some (ascii ''T''))), SetNegativeThought []]"

definition no_text_flow :: "event list" where
  "no_text_flow =
     [SetContent (ascii ''a walk in the sun''), ToggleCBT, SetNegativeThought example_thought,
      ClickAnalyze, Settle (Response None)]"

definition double_click_flow :: "event list" where
  "double_click_flow = [ToggleCBT, SetNegativeThought example_thought, ClickAnalyze, ClickAnalyze]"


section \<open>The entry store\<close>

text \<open>
  Claim C4. Saving an entry puts it at index 0 of the sequence; every entry that was
  stored before is found one index further, unchanged, so their relative order is kept.
  This holds for every entry, the valid ones included.
\<close>

theorem handleSaveEntry_prepends:
  "entries (handleSaveEntry entry app) = entry # entries app \<and>
   entries (handleSaveEntry entry app) ! 0 = entry \<and>
   length (entries (handleSaveEntry entry app)) = Suc (length (entries app)) \<and>
   (\<forall>i < length (entries app). entries (handleSaveEntry entry app) ! Suc i = entries app ! i)"
  by (simp add: handleSaveEntry_def)

theorem handleSaveEntry_prepends_witness:
  "entries (handleSaveEntry (example_entry None None)
      (initial_App_state\<lparr>entries := [example_entry (Some example_thought) None]\<rparr>)) ! 0
     = example_entry None None \<and>
   entries (handleSaveEntry (example_entry None None)
      (initial_App_state\<lparr>entries := [example_entry (Some example_thought) None]\<rparr>)) ! Suc 0
     = example_entry (Some example_thought) None"
  using handleSaveEntry_prepends [of "example_entry None None"
      "initial_App_state\<lparr>entries := [example_entry (Some example_thought) None]\<rparr>"]
  by simp


section \<open>Badge evaluation\<close>

lemma badge_ids_differ:
  "ascii ''cbt_explorer'' \<noteq> ascii ''first_step''"
  "ascii ''cbt_explorer'' \<noteq> ascii ''streak_3''"
  "ascii ''cbt_explorer'' \<noteq> ascii ''master_10''"
  by (simp_all add: ascii_def)

lemma cbt_explorer_condition_iff:
  "cbt_explorer_condition es = (\<exists>e \<in> set es. \<exists>s. cbtSuggestion e = Some s \<and> s \<noteq> [])"
  by (auto simp: cbt_explorer_condition_def list_ex_iff truthy_opt_def truthy_def
           split: option.splits)

lemma cbt_explorer_unlocked:
  "(ascii ''cbt_explorer'' \<in> set (unlocked_ids (recompute_badges es initial_badges)))
     = cbt_explorer_condition es"
  by (simp add: unlocked_ids_def recompute_badges_def initial_badges_def badge_ids_differ)

text \<open>
  Claim C5. After a recompute over the badges of the application, the badge
  \<open>cbt_explorer\<close> is among the unlocked ones exactly when some entry of the sequence
  has a \<open>cbtSuggestion\<close> that is present and not the empty string. In particular a
  sequence in which every \<open>cbtSuggestion\<close> is absent or empty does not unlock it,
  whatever the \<open>negativeThought\<close> fields hold.
\<close>

theorem cbt_explorer_unlocked_iff:
  "(ascii ''cbt_explorer'' \<in> set (unlocked_ids (recompute_badges es initial_badges)))
     = (\<exists>e \<in> set es. \<exists>s. cbtSuggestion e = Some s \<and> s \<noteq> []) \<and>
   ((\<forall>e \<in> set es. cbtSuggestion e = None \<or> cbtSuggestion e = Some []) \<longrightarrow>
      ascii ''cbt_explorer'' \<notin> set (unlocked_ids (recompute_badges es initial_badges)))"
proof -
  have iff: "(ascii ''cbt_explorer'' \<in> set (unlocked_ids (recompute_badges es initial_badges)))
     = (\<exists>e \<in> set es. \<exists>s. cbtSuggestion e = Some s \<and> s \<noteq> [])"
    by (simp only: cbt_explorer_unlocked cbt_explorer_condition_iff)
  have "\<forall>e \<in> set es. cbtSuggestion e = None \<or> cbtSuggestion e = Some [] \<Longrightarrow>
      \<not> (\<exists>e \<in> set es. \<exists>s. cbtSuggestion e = Some s \<and> s \<noteq> [])"
    by fastforce
  with iff show ?thesis by blast
qed

theorem cbt_explorer_unlocked_iff_witness:
  "ascii ''cbt_explorer'' \<notin> set (unlocked_ids (recompute_badges
      [example_entry (Some example_thought) None, example_entry (Some example_thought) (Some [])]
      initial_badges)) \<and>
   ascii ''cbt_explorer'' \<in> set (unlocked_ids (recompute_badges
      [example_entry None None, example_entry (Some example_thought) (Some FALLBACK_SUGGESTION)]
      initial_badges))"
  using cbt_explorer_unlocked_iff [of
      "[example_entry (Some example_thought) None, example_entry (Some example_thought) (Some [])]"]
    cbt_explorer_unlocked_iff [of
      "[example_entry None None, example_entry (Some example_thought) (Some FALLBACK_SUGGESTION)]"]
  by (simp add: example_entry_def FALLBACK_SUGGESTION_def)

lemma unlocked_ids_by_length:
  "unlocked_ids (recompute_badges es initial_badges) =
     (if first_step_condition es then [ascii ''first_step''] else []) @
     (if streak_3_condition es then [ascii ''streak_3''] else []) @
     (if cbt_explorer_condition es then [ascii ''cbt_explorer''] else []) @
     (if master_10_condition es then [ascii ''master_10''] else [])"
  by (simp add: unlocked_ids_def recompute_badges_def initial_badges_def)

text \<open>
  Claim C9. On the empty sequence no badge is unlocked. On a sequence of one entry
  whose \<open>cbtSuggestion\<close> is absent (or empty) exactly \<open>first_step\<close> is unlocked. On a
  sequence of ten entries \<open>first_step\<close>, \<open>streak_3\<close> and \<open>master_10\<close> are unlocked,
  and \<open>cbt_explorer\<close> besides them exactly when its own condition holds.
\<close>

theorem badge_evaluation_scenarios:
  "unlocked_ids (recompute_badges [] initial_badges) = [] \<and>
   (\<forall>e. \<not> truthy_opt (cbtSuggestion e) \<longrightarrow>
      unlocked_ids (recompute_badges [e] initial_badges) = [ascii ''first_step'']) \<and>
   (\<forall>es. length es = 10 \<longrightarrow>
      unlocked_ids (recompute_badges es initial_badges) =
        (if cbt_explorer_condition es
         then [ascii ''first_step'', ascii ''streak_3'', ascii ''cbt_explorer'', ascii ''master_10'']
         else [ascii ''first_step'', ascii ''streak_3'', ascii ''master_10'']))"
  by (simp add: unlocked_ids_by_length first_step_condition_def streak_3_condition_def
        master_10_condition_def cbt_explorer_condition_def)

theorem badge_evaluation_scenarios_witness:
  "unlocked_ids (recompute_badges [example_entry None None] initial_badges)
     = [ascii ''first_step''] \<and>
   unlocked_ids (recompute_badges (replicate 10 (example_entry None None)) initial_badges)
     = [ascii ''first_step'', ascii ''streak_3'', ascii ''master_10'']"
proof -
  have one: "\<not> truthy_opt (cbtSuggestion (example_entry None None))"
    by (simp add: example_entry_def truthy_opt_def)
  have ten: "length (replicate 10 (example_entry None None)) = 10"
    by simp
  have none: "\<not> cbt_explorer_condition (replicate 10 (example_entry None None))"
    by (simp add: cbt_explorer_condition_iff example_entry_def)
  from badge_evaluation_scenarios one ten none show ?thesis
    by presburger
qed

text \<open>
  Claim C10. The recompute that the entries effect performs changes nothing of a badge
  but \<open>unlocked\<close>: the list keeps its length and its order, and at every index the id,
  the name, the description, the icon and the condition are the ones that were there
  before; \<open>unlocked\<close> becomes the value of the badge's own condition on the entries.
\<close>

theorem entries_effect_badges_frame:
  "length (badges (snd (entries_effect stringify (ls, app)))) = length (badges app) \<and>
   (\<forall>i < length (badges app).
      badge_id (badges (snd (entries_effect stringify (ls, app))) ! i) = badge_id (badges app ! i) \<and>
      name (badges (snd (entries_effect stringify (ls, app))) ! i) = name (badges app ! i) \<and>
      description (badges (snd (entries_effect stringify (ls, app))) ! i)
        = description (badges app ! i) \<and>
      icon (badges (snd (entries_effect stringify (ls, app))) ! i) = icon (badges app ! i) \<and>
      condition (badges (snd (entries_effect stringify (ls, app))) ! i)
        = condition (badges app ! i) \<and>
      unlocked (badges (snd (entries_effect stringify (ls, app))) ! i)
        = condition (badges app ! i) (entries app)) \<and>
   entries (snd (entries_effect stringify (ls, app))) = entries app"
  by (simp add: entries_effect_def recompute_badges_def)

theorem entries_effect_badges_frame_witness:
  "badge_id (badges (snd (entries_effect (\<lambda>es. [])
       (Map.empty, initial_App_state\<lparr>entries := [example_entry None None]\<rparr>))) ! 2)
     = ascii ''cbt_explorer'' \<and>
   icon (badges (snd (entries_effect (\<lambda>es. [])
       (Map.empty, initial_App_state\<lparr>entries := [example_entry None None]\<rparr>))) ! 0)
     = Book 20 \<and>
   unlocked (badges (snd (entries_effect (\<lambda>es. [])
       (Map.empty, initial_App_state\<lparr>entries := [example_entry None None]\<rparr>))) ! 0)"
  using entries_effect_badges_frame [of "\<lambda>es. []" Map.empty
      "initial_App_state\<lparr>entries := [example_entry None None]\<rparr>"]
  by (simp add: initial_App_state_def initial_badges_def first_step_condition_def)


section \<open>The reframing pipeline\<close>

lemma truthy_FALLBACK: "truthy FALLBACK_SUGGESTION"
  by (simp add: truthy_def FALLBACK_SUGGESTION_def)

text \<open>
  Whatever is thrown inside the \<open>try\<close> block is caught: the fallback text is stored,
  \<open>isAnalysing\<close> is cleared, the handler returns normally and the view shows the
  suggestion panel. The same holds for the settling of an outstanding request in any
  state of the composition, whatever the user did while it was outstanding.
\<close>

lemma handleAnalyzeCBT_thrown_fallback:
  "(truthy (negativeThought' st) \<longrightarrow>
      handleAnalyzeCBT (Failure e) st
        = Inr (st\<lparr>aiSuggestion := Some FALLBACK_SUGGESTION, isAnalysing := False\<rparr>) \<and>
      pipeline_state (st\<lparr>aiSuggestion := Some FALLBACK_SUGGESTION, isAnalysing := False\<rparr>)
        = Resolved) \<and>
   (inflight c \<noteq> [] \<longrightarrow>
      step (Settle (Failure e)) c
        = Inr \<lparr>view = (view c)\<lparr>aiSuggestion := Some FALLBACK_SUGGESTION, isAnalysing := False\<rparr>,
               inflight = tl (inflight c)\<rparr> \<and>
      pipeline_state ((view c)\<lparr>aiSuggestion := Some FALLBACK_SUGGESTION, isAnalysing := False\<rparr>)
        = Resolved)"
  using truthy_FALLBACK
  by (simp add: handleAnalyzeCBT_def handleAnalyzeCBT_begin_def handleAnalyzeCBT_complete_def
        try_block_def pipeline_state_def truthy_opt_def split: list.splits)

text \<open>
  A reply without text throws nothing: the \<open>catch\<close> clause does not run,
  \<open>undefined\<close> is stored in place of a suggestion, and the view is back at the
  enabled button.
\<close>

lemma handleAnalyzeCBT_reply_without_text:
  "truthy (negativeThought' st) \<Longrightarrow>
   handleAnalyzeCBT (Response None) st = Inr (st\<lparr>aiSuggestion := None, isAnalysing := False\<rparr>) \<and>
   pipeline_state (st\<lparr>aiSuggestion := None, isAnalysing := False\<rparr>) = Ready"
  by (simp add: handleAnalyzeCBT_def handleAnalyzeCBT_begin_def handleAnalyzeCBT_complete_def
        try_block_def pipeline_state_def truthy_opt_def)

text \<open>
  Claim C2 says that a request that fails for any reason, a malformed response among
  the reasons, ends in \<open>Resolved\<close> with the fallback text stored. The handler does so
  for every failure that throws. For the thought of the specification's scenario and a
  reply without text it does not: nothing is stored but \<open>undefined\<close>, the fallback
  text is not, and the pipeline is at \<open>Ready\<close> again; the same in the course of a
  composition.
\<close>

theorem handleAnalyzeCBT_no_text_no_fallback:
  "handleAnalyzeCBT (Response None) example_view = Inr (example_view\<lparr>aiSuggestion := None\<rparr>) \<and>
   aiSuggestion (example_view\<lparr>aiSuggestion := None\<rparr>) \<noteq> Some FALLBACK_SUGGESTION \<and>
   pipeline_state (example_view\<lparr>aiSuggestion := None\<rparr>) = Ready \<and>
   run no_text_flow initial_composition
     = Inr \<lparr>view = \<lparr>content' = ascii ''a walk in the sun'', mood' = neutral, showCBT = True,
                    negativeThought' = example_thought, aiSuggestion = None,
                    isAnalysing = False\<rparr>,
            inflight = []\<rparr>"
  by (simp add: handleAnalyzeCBT_def handleAnalyzeCBT_begin_def handleAnalyzeCBT_complete_def
        try_block_def pipeline_state_def truthy_opt_def truthy_def example_view_def
        example_thought_def no_text_flow_def initial_composition_def
        initial_JournalView_state_def analyze_rendered_def analyze_disabled_def)




lemma step_total: "\<exists>c'. step ev c = Inr c'"
  by (cases ev)
     (auto simp: handleAnalyzeCBT_begin_def handleAnalyzeCBT_complete_def try_block_def
           split: list.splits gen_outcome.splits)

lemma step_one_request: "step ev c = Inr c' \<Longrightarrow> one_request c \<Longrightarrow> one_request c'"
  by (cases ev)
     (auto simp: one_request_def handleAnalyzeCBT_begin_def handleAnalyzeCBT_complete_def
           try_block_def analyze_disabled_def analyze_rendered_def
           split: list.splits gen_outcome.splits if_splits)

lemma run_one_request: "one_request c \<Longrightarrow> \<exists>c'. run evs c = Inr c' \<and> one_request c'"
proof (induction evs arbitrary: c)
  case Nil
  then show ?case by simp
next
  case (Cons ev evs)
  obtain c1 where s: "step ev c = Inr c1" using step_total by blast
  have "one_request c1" by (rule step_one_request [OF s Cons.prems])
  from Cons.IH [OF this] s show ?case by simp
qed

lemma click_while_requesting: "isAnalysing (view c) \<Longrightarrow> step ClickAnalyze c = Inr c"
  by (simp add: analyze_disabled_def)

lemma click_without_thought: "\<not> truthy (negativeThought' (view c)) \<Longrightarrow> step ClickAnalyze c = Inr c"
  by (simp add: analyze_disabled_def)

lemma click_fires:
  "step ClickAnalyze c = Inr c' \<Longrightarrow> c' \<noteq> c \<Longrightarrow>
   pipeline_state (view c) = Ready \<and> pipeline_state (view c') = Requesting \<and>
   inflight c' = inflight c @ [build_prompt (negativeThought' (view c)) (mood' (view c))]"
  by (auto simp: analyze_disabled_def analyze_rendered_def handleAnalyzeCBT_begin_def
        pipeline_state_def split: if_splits)

text \<open>
  Claim C7. In every state that a sequence of events reaches from a fresh composition,
  at most one request is outstanding, and \<open>isAnalysing\<close> holds exactly while one is.
  A click on the analyze button while a request is outstanding (the \<open>Requesting\<close>
  state) changes nothing and issues nothing, and so does a click while the thought is
  empty. A click that does change the state leaves \<open>Ready\<close> for \<open>Requesting\<close>
  with exactly one request outstanding. The handler itself goes past its guard only on a
  thought that is not empty.
\<close>

theorem one_request_in_flight:
  "(\<exists>c. run evs initial_composition = Inr c \<and>
        length (inflight c) \<le> 1 \<and>
        isAnalysing (view c) = (inflight c \<noteq> []) \<and>
        (inflight c \<noteq> [] \<longrightarrow> step ClickAnalyze c = Inr c) \<and>
        (pipeline_state (view c) = Requesting \<longrightarrow> step ClickAnalyze c = Inr c) \<and>
        (\<not> truthy (negativeThought' (view c)) \<longrightarrow> step ClickAnalyze c = Inr c) \<and>
        (\<forall>c'. step ClickAnalyze c = Inr c' \<and> c' \<noteq> c \<longrightarrow>
           pipeline_state (view c) = Ready \<and> pipeline_state (view c') = Requesting \<and>
           length (inflight c') = 1)) \<and>
   (\<forall>st. handleAnalyzeCBT_begin st \<noteq> None \<longrightarrow> truthy (negativeThought' st))"
proof -
  have "one_request initial_composition"
    by (simp add: one_request_def initial_composition_def initial_JournalView_state_def)
  then obtain c where r: "run evs initial_composition = Inr c" and o: "one_request c"
    using run_one_request by blast
  from o have len: "length (inflight c) \<le> 1" and an: "isAnalysing (view c) = (inflight c \<noteq> [])"
    by (simp_all add: one_request_def)
  have a: "inflight c \<noteq> [] \<longrightarrow> step ClickAnalyze c = Inr c"
    using an click_while_requesting by blast
  have b: "pipeline_state (view c) = Requesting \<longrightarrow> step ClickAnalyze c = Inr c"
    using click_while_requesting [of c] by (auto simp: pipeline_state_def split: if_splits)
  have d: "\<not> truthy (negativeThought' (view c)) \<longrightarrow> step ClickAnalyze c = Inr c"
    using click_without_thought by blast
  have f: "\<forall>c'. step ClickAnalyze c = Inr c' \<and> c' \<noteq> c \<longrightarrow>
           pipeline_state (view c) = Ready \<and> pipeline_state (view c') = Requesting \<and>
           length (inflight c') = 1"
  proof (intro allI impI)
    fix c' assume h: "step ClickAnalyze c = Inr c' \<and> c' \<noteq> c"
    then have k: "pipeline_state (view c) = Ready \<and> pipeline_state (view c') = Requesting \<and>
       inflight c' = inflight c @ [build_prompt (negativeThought' (view c)) (mood' (view c))]"
      using click_fires by blast
    from h a have "inflight c = []" by auto
    with k show "pipeline_state (view c) = Ready \<and> pipeline_state (view c') = Requesting \<and>
           length (inflight c') = 1" by simp
  qed
  have g: "\<forall>st. handleAnalyzeCBT_begin st \<noteq> None \<longrightarrow> truthy (negativeThought' st)"
    by (simp add: handleAnalyzeCBT_begin_def)
  from r len an a b d f g show ?thesis by blast
qed

theorem one_request_in_flight_witness:
  "run double_click_flow initial_composition
     = Inr \<lparr>view = initial_JournalView_state
               \<lparr>showCBT := True, negativeThought' := example_thought, isAnalysing := True\<rparr>,
            inflight = [build_prompt example_thought neutral]\<rparr> \<and>
   step ClickAnalyze
     \<lparr>view = initial_JournalView_state
        \<lparr>showCBT := True, negativeThought' := example_thought, isAnalysing := True\<rparr>,
      inflight = [build_prompt example_thought neutral]\<rparr>
     = Inr \<lparr>view = initial_JournalView_state
               \<lparr>showCBT := True, negativeThought' := example_thought, isAnalysing := True\<rparr>,
            inflight = [build_prompt example_thought neutral]\<rparr>"
proof -
  have r: "run double_click_flow initial_composition
     = Inr \<lparr>view = initial_JournalView_state
               \<lparr>showCBT := True, negativeThought' := example_thought, isAnalysing := True\<rparr>,
            inflight = [build_prompt example_thought neutral]\<rparr>"
    by (simp add: double_click_flow_def initial_composition_def initial_JournalView_state_def
          analyze_rendered_def analyze_disabled_def handleAnalyzeCBT_begin_def truthy_def
          truthy_opt_def example_thought_def)
  from one_request_in_flight [of double_click_flow] r show ?thesis
    by auto
qed


section \<open>Saving the composition\<close>

lemma all_dropWhile: "(\<forall>x \<in> set (dropWhile P s). P x) = (\<forall>x \<in> set s. P x)"
  by (induction s) auto

lemma trim_empty_iff: "(trim s = []) = (\<forall>ch \<in> set s. js_whitespace ch)"
  by (simp add: trim_def dropWhile_eq_Nil_conv all_dropWhile)

text \<open>
  Claim C8. When the content is empty or consists of white space only, \<open>handleSubmit\<close>
  returns before it builds an entry: \<open>onSave\<close> is not called and the application
  state, the stored sequence with it, is what it was. The handler has no failing branch.
\<close>

theorem blank_content_not_saved:
  "\<forall>ch \<in> set (content' st). js_whitespace ch \<Longrightarrow>
   handleSubmit now_ms now_iso initialPrompt st = None \<and> save_click now_ms now_iso st app = app"
  by (simp add: handleSubmit_def save_click_def truthy_def trim_empty_iff)

theorem blank_content_not_saved_witness:
  "handleSubmit (ascii ''1762170000000'') (ascii ''2026-11-03T11:40:00.000Z'') None
     (example_view\<lparr>content' := [0x20, 0x3000, 0x0A]\<rparr>) = None \<and>
   save_click (ascii ''1762170000000'') (ascii ''2026-11-03T11:40:00.000Z'')
     (initial_JournalView_state\<lparr>content' := []\<rparr>) initial_App_state = initial_App_state"
proof -
  have a: "\<forall>ch \<in> set (content' (example_view\<lparr>content' := [0x20, 0x3000, 0x0A]\<rparr>)). js_whitespace ch"
    by (simp add: js_whitespace_def)
  have b: "\<forall>ch \<in> set (content' (initial_JournalView_state\<lparr>content' := []\<rparr>)). js_whitespace ch"
    by simp
  from blank_content_not_saved [OF a] blank_content_not_saved [OF b] show ?thesis
    by blast
qed

text \<open>
  Claim C6 says that a saved entry has its suggestion set exactly when it has its thought
  set, so that no saved entry carries a suggestion without the thought that produced it.
  It fails in both readings of "set". Where the source asks whether an entry has a
  suggestion it asks for a truthy field (the condition of \<open>cbt_explorer\<close>, the marker
  in the home view): the user enters a thought, receives the suggestion \<open>"T"\<close>,
  erases the thought and saves, and the saved entry carries the suggestion \<open>"T"\<close>
  and the empty thought. Read as presence of the fields: the user enters a thought,
  asks for a suggestion, the reply carries no text, and the user saves; the saved entry
  has the thought and no \<open>cbtSuggestion\<close> at all.
\<close>

theorem suggestion_without_thought_counterexample:
  "run example_flow initial_composition
     = Inr \<lparr>view = \<lparr>content' = ascii ''a walk in the sun'', mood' = neutral, showCBT = True,
                    negativeThought' = [], aiSuggestion = Some (ascii ''T''),
                    isAnalysing = False\<rparr>,
            inflight = []\<rparr> \<and>
   handleSubmit (ascii ''1762170000000'') (ascii ''2026-11-03T11:40:00.000Z'') None
     \<lparr>content' = ascii ''a walk in the sun'', mood' = neutral, showCBT = True,
      negativeThought' = [], aiSuggestion = Some (ascii ''T''), isAnalysing = False\<rparr>
     = Some \<lparr>entry_id = ascii ''1762170000000'', date = ascii ''2026-11-03T11:40:00.000Z'',
             content = ascii ''a walk in the sun'', mood = neutral,
             negativeThought = Some [], cbtSuggestion = Some (ascii ''T''), prompt = None\<rparr> \<and>
   truthy_opt (Some (ascii ''T'')) \<and> \<not> truthy_opt (Some []) \<and>
   run no_text_flow initial_composition
     = Inr \<lparr>view = \<lparr>content' = ascii ''a walk in the sun'', mood' = neutral, showCBT = True,
                    negativeThought' = example_thought, aiSuggestion = None,
                    isAnalysing = False\<rparr>,
            inflight = []\<rparr> \<and>
   handleSubmit (ascii ''1762170000000'') (ascii ''2026-11-03T11:40:00.000Z'') None
     \<lparr>content' = ascii ''a walk in the sun'', mood' = neutral, showCBT = True,
      negativeThought' = example_thought, aiSuggestion = None, isAnalysing = False\<rparr>
     = Some \<lparr>entry_id = ascii ''1762170000000'', date = ascii ''2026-11-03T11:40:00.000Z'',
             content = ascii ''a walk in the sun'', mood = neutral,
             negativeThought = Some example_thought, cbtSuggestion = None, prompt = None\<rparr>"
  by (simp add: example_flow_def no_text_flow_def initial_composition_def
        initial_JournalView_state_def analyze_rendered_def analyze_disabled_def
        handleAnalyzeCBT_begin_def handleAnalyzeCBT_complete_def try_block_def handleSubmit_def
        truthy_def truthy_opt_def example_thought_def trim_def js_whitespace_def ascii_def)

text \<open>
  Claim C6, amended. A saved entry has the field \<open>cbtSuggestion\<close> only if it has the
  field \<open>negativeThought\<close>. The thought is present exactly when the reframing section
  is open at the moment of saving, and it is then the text of the view, the empty
  string included; the suggestion is then whatever the view holds as its suggestion.
  With the section closed both fields are absent. Nothing is said of the converse, nor
  of the contents: a thought can be saved without a suggestion, and a suggestion beside
  an empty thought.
\<close>

theorem handleSubmit_suggestion_needs_thought:
  "handleSubmit now_ms now_iso initialPrompt st = Some e \<Longrightarrow>
   (cbtSuggestion e \<noteq> None \<longrightarrow> negativeThought e \<noteq> None) \<and>
   ((negativeThought e \<noteq> None) = showCBT st) \<and>
   (showCBT st \<longrightarrow>
      negativeThought e = Some (negativeThought' st) \<and> cbtSuggestion e = aiSuggestion st) \<and>
   (\<not> showCBT st \<longrightarrow> negativeThought e = None \<and> cbtSuggestion e = None)"
  by (auto simp: handleSubmit_def split: if_splits)

theorem handleSubmit_suggestion_needs_thought_witness:
  "handleSubmit (ascii ''1762170000000'') (ascii ''2026-11-03T11:40:00.000Z'') None
     (example_view\<lparr>aiSuggestion := Some FALLBACK_SUGGESTION\<rparr>)
     = Some (example_entry (Some example_thought) (Some FALLBACK_SUGGESTION)\<lparr>mood := sad\<rparr>) \<and>
   showCBT (example_view\<lparr>aiSuggestion := Some FALLBACK_SUGGESTION\<rparr>) \<and>
   negativeThought (example_entry (Some example_thought) (Some FALLBACK_SUGGESTION)\<lparr>mood := sad\<rparr>)
     = Some example_thought"
proof -
  have h: "handleSubmit (ascii ''1762170000000'') (ascii ''2026-11-03T11:40:00.000Z'') None
      (example_view\<lparr>aiSuggestion := Some FALLBACK_SUGGESTION\<rparr>)
      = Some (example_entry (Some example_thought) (Some FALLBACK_SUGGESTION)\<lparr>mood := sad\<rparr>)"
    by (simp add: handleSubmit_def example_view_def example_entry_def truthy_def trim_def
          js_whitespace_def ascii_def)
  from handleSubmit_suggestion_needs_thought [OF h] h show ?thesis
    by (simp add: example_entry_def example_view_def)
qed


section \<open>Hydration\<close>








end
